theory Spec2Isabelle
  imports Complex_Main
begin

section \<open>The Phoenix demo engine: data model\<close>

text \<open>
  The embedding follows \<^verbatim>\<open>phoenix_simple_demo.py\<close>. Python's \<^verbatim>\<open>float\<close> is
  idealised as \<^typ>\<open>real\<close>: rounding, infinities and NaN are outside the model, so
  every statement below is about the exact arithmetic of the formulas the code computes.
  Python's unbounded \<^verbatim>\<open>int\<close> is \<^typ>\<open>int\<close>, \<^verbatim>\<open>str\<close> is \<^typ>\<open>string\<close>.
  The operations are defined without their printing, which has no effect on the engine;
  \<open>process_signal_io\<close> is \<open>process_signal\<close> with its \<^verbatim>\<open>print\<close> and with the float
  range of the win rate, the two places where the call can raise besides a division by
  zero.
\<close>

record PhoenixConfig =
  capital :: real
  risk_tolerance :: real
  max_position_size :: real
  trading_mode :: string

record MarketSignal =
  token :: string
  price :: real
  volume :: real
  timestamp :: string
  signal_strength :: real

text \<open>
  The fields of the dataclass \<^verbatim>\<open>TradingSignal\<close> are \<^verbatim>\<open>action\<close>, \<^verbatim>\<open>token\<close>,
  \<^verbatim>\<open>amount\<close>, \<^verbatim>\<open>price\<close>, \<^verbatim>\<open>confidence\<close>, \<^verbatim>\<open>timestamp\<close>; three of these names
  are fields of \<^typ>\<open>MarketSignal\<close> already, so all six carry the prefix \<open>ts_\<close> here.
\<close>

record TradingSignal =
  ts_action :: string
  ts_token :: string
  ts_amount :: real
  ts_price :: real
  ts_confidence :: real
  ts_timestamp :: string

record PhoenixMetrics =
  total_trades :: int
  successful_trades :: int
  total_pnl :: real
  win_rate :: real
  avg_trade_duration :: real
  current_positions :: int

text \<open>The attributes of a \<^verbatim>\<open>PhoenixEngineDemo\<close> object.\<close>

record PhoenixEngineDemo =
  config :: PhoenixConfig
  metrics :: PhoenixMetrics
  active :: bool

datatype py_error = ZeroDivisionError | OverflowError | UnicodeEncodeError

section \<open>Operations\<close>

text \<open>\<^verbatim>\<open>PhoenixEngineDemo.__init__(self, capital)\<close>: the only parameter is the capital.\<close>

definition PhoenixEngineDemo_init :: "real \<Rightarrow> PhoenixEngineDemo" where
  "PhoenixEngineDemo_init cap =
     \<lparr> config = \<lparr> capital = cap, risk_tolerance = 0.85,
                  max_position_size = cap * 0.1, trading_mode = ''DEMO'' \<rparr>,
       metrics = \<lparr> total_trades = 0, successful_trades = 0, total_pnl = 0.0,
                   win_rate = 0.0, avg_trade_duration = 0.0, current_positions = 0 \<rparr>,
       active = False \<rparr>"

definition activate :: "PhoenixEngineDemo \<Rightarrow> PhoenixEngineDemo" where
  "activate e = e\<lparr>active := True\<rparr>"

definition deactivate :: "PhoenixEngineDemo \<Rightarrow> PhoenixEngineDemo" where
  "deactivate e = e\<lparr>active := False\<rparr>"

definition get_metrics :: "PhoenixEngineDemo \<Rightarrow> PhoenixMetrics" where
  "get_metrics e = metrics e"

text \<open>
  Python's two-argument \<^verbatim>\<open>min(a, b)\<close> keeps \<open>a\<close> unless \<open>b < a\<close>.
\<close>

definition py_min :: "real \<Rightarrow> real \<Rightarrow> real" where
  "py_min a b = (if b < a then b else a)"

text \<open>
  Python's \<^verbatim>\<open>a / b\<close> on two ints raises \<^verbatim>\<open>ZeroDivisionError\<close> when \<open>b\<close> is zero. The
  quotient is taken to be in the range of a float here; \<open>py_int_truediv\<close> below has the
  \<^verbatim>\<open>OverflowError\<close> of a quotient that is not.
\<close>

definition py_truediv :: "int \<Rightarrow> int \<Rightarrow> py_error + real" where
  "py_truediv a b = (if b = 0 then Inl ZeroDivisionError else Inr (real_of_int a / real_of_int b))"

definition calculate_confidence :: "PhoenixEngineDemo \<Rightarrow> MarketSignal \<Rightarrow> real" where
  "calculate_confidence e signal =
     (let volume_factor = py_min (volume signal / 1000000.0) 1.0;
          strength_factor = signal_strength signal;
          risk_factor = risk_tolerance (config e)
      in py_min (volume_factor * strength_factor * risk_factor) 1.0)"

definition calculate_position_size :: "PhoenixEngineDemo \<Rightarrow> MarketSignal \<Rightarrow> real \<Rightarrow> real" where
  "calculate_position_size e signal confidence =
     (let base_size = max_position_size (config e);
          confidence_multiplier = confidence;
          volatility_adjustment = 1.0 - \<bar>signal_strength signal - 0.5\<bar>
      in base_size * confidence_multiplier * volatility_adjustment)"

text \<open>
  \<^verbatim>\<open>process_signal\<close>. The clock reading \<^verbatim>\<open>datetime.now(timezone.utc).isoformat()\<close> is the
  parameter \<open>now\<close>. The result is the returned value (\<open>None\<close> for Python's \<^verbatim>\<open>None\<close>)
  together with the engine after the call, or the exception raised.
\<close>

definition process_signal ::
  "PhoenixEngineDemo \<Rightarrow> string \<Rightarrow> MarketSignal \<Rightarrow> py_error + (TradingSignal option \<times> PhoenixEngineDemo)" where
  "process_signal e now signal =
     (if \<not> active e then Inr (None, e)
      else
        let confidence = calculate_confidence e signal in
        if confidence > 0.7 then
          let action = (if signal_strength signal > 0.5 then ''BUY'' else ''SELL'');
              amount = calculate_position_size e signal confidence;
              trading_signal = \<lparr> ts_action = action, ts_token = token signal,
                                 ts_amount = amount, ts_price = price signal,
                                 ts_confidence = confidence, ts_timestamp = now \<rparr>;
              m1 = (metrics e)\<lparr>total_trades := total_trades (metrics e) + 1\<rparr>;
              m2 = (if confidence > 0.8
                    then m1\<lparr>successful_trades := successful_trades m1 + 1,
                            total_pnl := total_pnl m1 + amount * 0.02\<rparr>
                    else m1)
          in if total_trades m2 > 0
             then (case py_truediv (successful_trades m2) (total_trades m2) of
                     Inl err \<Rightarrow> Inl err
                   | Inr w \<Rightarrow> Inr (Some trading_signal, e\<lparr>metrics := m2\<lparr>win_rate := w\<rparr>\<rparr>))
             else Inr (Some trading_signal, e\<lparr>metrics := m2\<rparr>)
        else Inr (None, e))"

text \<open>
  A caller's sequence of calls on one engine. A call that raises ends the sequence with
  the exception.
\<close>

datatype call = Activate | Deactivate | Process_signal string MarketSignal | Get_metrics

fun step :: "PhoenixEngineDemo \<Rightarrow> call \<Rightarrow> py_error + PhoenixEngineDemo" where
  "step e Activate = Inr (activate e)"
| "step e Deactivate = Inr (deactivate e)"
| "step e (Process_signal now signal) =
     (case process_signal e now signal of Inl err \<Rightarrow> Inl err | Inr (r, e') \<Rightarrow> Inr e')"
| "step e Get_metrics = Inr e"

fun run :: "PhoenixEngineDemo \<Rightarrow> call list \<Rightarrow> py_error + PhoenixEngineDemo" where
  "run e [] = Inr e"
| "run e (c # cs) = (case step e c of Inl err \<Rightarrow> Inl err | Inr e' \<Rightarrow> run e' cs)"

section \<open>Printing and the range of a float\<close>

text \<open>
  The true division of two ints rounds the quotient to the nearest float and raises
  \<^verbatim>\<open>OverflowError\<close> when the rounded quotient is beyond the largest float
  \<open>2^1024 - 2^971\<close>, that is when the quotient reaches the midpoint
  \<open>2^1024 - 2^970\<close>. Within the range the quotient is exact here, as all float arithmetic.
\<close>

definition float_overflow_bound :: real where
  "float_overflow_bound = 2 ^ 1024 - 2 ^ 970"

definition py_int_truediv :: "int \<Rightarrow> int \<Rightarrow> py_error + real" where
  "py_int_truediv a b =
     (if b = 0 then Inl ZeroDivisionError
      else if float_overflow_bound \<le> \<bar>real_of_int a / real_of_int b\<bar> then Inl OverflowError
      else Inr (real_of_int a / real_of_int b))"

text \<open>
  The line \<open>process_signal\<close> prints for a qualifying signal on line 103 is a fixed text
  with four interpolated values: the action, the token, the price and the confidence
  times 100. The output stream is a parameter, the set of lines its codec can encode;
  \<^verbatim>\<open>print\<close> raises \<^verbatim>\<open>UnicodeEncodeError\<close> on any other line. The stream is taken
  to be open and writable.
\<close>

record console_line =
  line_action :: string
  line_token :: string
  line_price :: real
  line_confidence :: real

definition py_print :: "(console_line \<Rightarrow> bool) \<Rightarrow> console_line \<Rightarrow> py_error + unit" where
  "py_print stdout line = (if stdout line then Inr () else Inl UnicodeEncodeError)"

text \<open>
  A Python \<^verbatim>\<open>str\<close> is held as the bytes of its generalised UTF-8 form, where a surrogate
  code point (U+D800 to U+DFFF) is the byte \<open>ED\<close> followed by a byte from \<open>A0\<close> to \<open>BF\<close>
  and one more. The strict UTF-8 codec, the default of \<^verbatim>\<open>sys.stdout\<close>, encodes the fixed
  text and the numbers of the line, and every token without a surrogate.
\<close>

fun has_surrogate :: "string \<Rightarrow> bool" where
  "has_surrogate (a # b # cs) =
     ((a = CHR 0xED \<and> (0xA0::nat) \<le> of_char b \<and> of_char b \<le> (0xBF::nat)) \<or> has_surrogate (b # cs))"
| "has_surrogate [a] = False"
| "has_surrogate [] = False"

definition utf8_stdout :: "console_line \<Rightarrow> bool" where
  "utf8_stdout line = (\<not> has_surrogate (line_token line))"

text \<open>
  \<^verbatim>\<open>process_signal\<close> with the print of line 103 and the division of line 101 in full.
  When the print raises, the metrics have been updated already; the result records the
  exception only.
\<close>

definition process_signal_io ::
  "(console_line \<Rightarrow> bool) \<Rightarrow> PhoenixEngineDemo \<Rightarrow> string \<Rightarrow> MarketSignal
     \<Rightarrow> py_error + (TradingSignal option \<times> PhoenixEngineDemo)" where
  "process_signal_io stdout e now signal =
     (if \<not> active e then Inr (None, e)
      else
        let confidence = calculate_confidence e signal in
        if confidence > 0.7 then
          let action = (if signal_strength signal > 0.5 then ''BUY'' else ''SELL'');
              amount = calculate_position_size e signal confidence;
              trading_signal = \<lparr> ts_action = action, ts_token = token signal,
                                 ts_amount = amount, ts_price = price signal,
                                 ts_confidence = confidence, ts_timestamp = now \<rparr>;
              m1 = (metrics e)\<lparr>total_trades := total_trades (metrics e) + 1\<rparr>;
              m2 = (if confidence > 0.8
                    then m1\<lparr>successful_trades := successful_trades m1 + 1,
                            total_pnl := total_pnl m1 + amount * 0.02\<rparr>
                    else m1);
              line = \<lparr> line_action = action, line_token = token signal,
                       line_price = price signal, line_confidence = confidence * 100 \<rparr>
          in case (if total_trades m2 > 0
                   then (case py_int_truediv (successful_trades m2) (total_trades m2) of
                           Inl err \<Rightarrow> Inl err
                         | Inr w \<Rightarrow> Inr (m2\<lparr>win_rate := w\<rparr>))
                   else Inr m2) of
               Inl err \<Rightarrow> Inl err
             | Inr m3 \<Rightarrow>
                 (case py_print stdout line of
                    Inl err \<Rightarrow> Inl err
                  | Inr u \<Rightarrow> Inr (Some trading_signal, e\<lparr>metrics := m3\<rparr>))
        else Inr (None, e))"

text \<open>The line that \<open>process_signal_io\<close> prints for a qualifying signal.\<close>

definition signal_line :: "PhoenixEngineDemo \<Rightarrow> MarketSignal \<Rightarrow> console_line" where
  "signal_line e signal =
     \<lparr> line_action = (if signal_strength signal > 0.5 then ''BUY'' else ''SELL''),
       line_token = token signal, line_price = price signal,
       line_confidence = calculate_confidence e signal * 100 \<rparr>"

section \<open>Concrete inputs\<close>

text \<open>
  The engine of the demo's \<^verbatim>\<open>main\<close>: \<^verbatim>\<open>PhoenixEngineDemo(1000.0)\<close>, activated. Its
  configuration has \<open>risk_tolerance = 0.85\<close> and \<open>max_position_size = 100\<close>.
\<close>

definition demo_engine :: PhoenixEngineDemo where
  "demo_engine = activate (PhoenixEngineDemo_init 1000)"

text \<open>A market signal with the given volume and signal strength.\<close>

definition market_signal :: "real \<Rightarrow> real \<Rightarrow> MarketSignal" where
  "market_signal vol str =
     \<lparr> token = ''BONK'', price = 0.01, volume = vol, timestamp = ''t0'', signal_strength = str \<rparr>"


text \<open>
  Scenario A's signal with the lone surrogate U+D800 as its token, and the demo engine
  after the assignment \<^verbatim>\<open>engine.metrics.successful_trades = 10**400\<close>.
\<close>

definition surrogate_signal :: MarketSignal where
  "surrogate_signal = (market_signal 2000000 0.9)\<lparr>token := [CHR 0xED, CHR 0xA0, CHR 0x80]\<rparr>"

definition huge_engine :: PhoenixEngineDemo where
  "huge_engine = demo_engine\<lparr>metrics := (metrics demo_engine)\<lparr>successful_trades := 10 ^ 400\<rparr>\<rparr>"

text \<open>
  The signal strengths for which the volatility adjustment \<open>1 - |strength - 0.5|\<close> of
  the position sizer is not negative: the interval \<open>[-0.5, 1.5]\<close>, which contains the
  range \<open>[0,1]\<close> of the data model.
\<close>

fun strength_in_range :: "call \<Rightarrow> bool" where
  "strength_in_range (Process_signal now signal) =
     (- 0.5 \<le> signal_strength signal \<and> signal_strength signal \<le> 1.5)"
| "strength_in_range Activate = True"
| "strength_in_range Deactivate = True"
| "strength_in_range Get_metrics = True"

text \<open>
  The invariant of the metrics: the counters are ordered and the stored win rate is the
  quotient the code last computed (0 before the first trade).
\<close>

definition metrics_consistent :: "PhoenixMetrics \<Rightarrow> bool" where
  "metrics_consistent m =
     (0 \<le> successful_trades m \<and> successful_trades m \<le> total_trades m \<and>
      win_rate m = (if 0 < total_trades m
                    then real_of_int (successful_trades m) / real_of_int (total_trades m)
                    else 0))"

text \<open>
  A session on a fresh engine: three qualifying signals while active, one of them with a
  confidence above 0.8, a read of the metrics in between, and one more signal after the
  deactivation.
\<close>

definition scenario_D :: "call list" where
  "scenario_D =
     [Activate,
      Process_signal ''t1'' (market_signal 2000000 0.9),
      Get_metrics,
      Process_signal ''t2'' (market_signal 2000000 0.9),
      Process_signal ''t3'' (market_signal 2000000 1),
      Deactivate,
      Process_signal ''t4'' (market_signal 2000000 1)]"

section \<open>Evaluation of the concrete inputs\<close>

lemmas phoenix_defs =
  demo_engine_def market_signal_def activate_def deactivate_def
  PhoenixEngineDemo_init_def calculate_confidence_def calculate_position_size_def
  py_min_def py_truediv_def process_signal_def Let_def


lemma confidence_scenario_A: "calculate_confidence demo_engine (market_signal 2000000 0.9) = 0.765"
  by (simp add: phoenix_defs)


lemma process_scenario_A:
  "process_signal demo_engine ''t1'' (market_signal 2000000 0.9) =
     Inr (Some \<lparr> ts_action = ''BUY'', ts_token = ''BONK'', ts_amount = 45.9, ts_price = 0.01,
                  ts_confidence = 0.765, ts_timestamp = ''t1'' \<rparr>,
          demo_engine\<lparr>metrics := \<lparr> total_trades = 1, successful_trades = 0, total_pnl = 0,
                                    win_rate = 0, avg_trade_duration = 0, current_positions = 0 \<rparr>\<rparr>)"
  by (simp add: phoenix_defs)


lemma run_scenario_D:
  "run (PhoenixEngineDemo_init 1000) scenario_D =
     Inr ((PhoenixEngineDemo_init 1000)
            \<lparr>metrics := \<lparr> total_trades = 3, successful_trades = 1, total_pnl = 0.85,
                          win_rate = 1 / 3, avg_trade_duration = 0, current_positions = 0 \<rparr>\<rparr>)"
  by (simp add: scenario_D_def phoenix_defs)

section \<open>Bounds of \<open>py_min\<close>\<close>

lemma py_min_upper: "py_min a b \<le> b"
  by (simp add: py_min_def)

lemma py_min_nonneg: "0 \<le> a \<Longrightarrow> 0 \<le> b \<Longrightarrow> 0 \<le> py_min a b"
  by (simp add: py_min_def)

lemma py_min_lower: "py_min a b \<le> a"
  by (simp add: py_min_def)

section \<open>The decision threshold\<close>



section \<open>The inactive engine\<close>

text \<open>
  Claim C3. On an inactive engine \<open>process_signal\<close> returns nothing for every signal,
  and the engine after the call is the engine before it: every field of the metrics is
  unchanged.
\<close>

theorem process_signal_inactive:
  assumes "\<not> active e"
  shows "process_signal e now s = Inr (None, e)"
  using assms by (simp add: process_signal_def)

theorem process_signal_inactive_witness:
  "\<not> active (PhoenixEngineDemo_init 1000) \<and>
   process_signal (PhoenixEngineDemo_init 1000) ''t1'' (market_signal 2000000 0.9)
     = Inr (None, PhoenixEngineDemo_init 1000)"
proof -
  have a: "\<not> active (PhoenixEngineDemo_init 1000)"
    by (simp add: PhoenixEngineDemo_init_def)
  show ?thesis
    using a process_signal_inactive [OF a, of "''t1''" "market_signal 2000000 0.9"] by simp
qed

section \<open>Exceptions\<close>

lemma one_less_bound: "1 < float_overflow_bound"
  by (simp add: float_overflow_bound_def)

lemma py_int_truediv_counters:
  assumes "0 \<le> a" "a \<le> b" "0 < b"
  shows "py_int_truediv a b = Inr (real_of_int a / real_of_int b)"
proof -
  have "\<bar>real_of_int a / real_of_int b\<bar> \<le> 1"
    using assms by simp
  then have "\<not> float_overflow_bound \<le> \<bar>real_of_int a / real_of_int b\<bar>"
    using one_less_bound by linarith
  then show ?thesis
    using assms(3) by (simp add: py_int_truediv_def)
qed

text \<open>
  Whatever \<open>process_signal_io\<close> returns, \<open>process_signal\<close> returns: the two differ
  only where the former raises.
\<close>

lemma process_signal_io_refines:
  assumes "process_signal_io stdout e now s = Inr r"
  shows "process_signal e now s = Inr r"
  using assms
  by (auto simp: process_signal_io_def process_signal_def py_print_def py_int_truediv_def
      py_truediv_def Let_def split: if_splits)

text \<open>
  Claim C8, as stated: \<open>process_signal\<close> raises no exception for any input. It fails on
  the code. On the demo engine, with the strict UTF-8 output stream, the signal of
  scenario A with a lone surrogate as its token raises \<^verbatim>\<open>UnicodeEncodeError\<close> at the
  print; and on an engine whose \<open>successful_trades\<close> was set to \<open>10^400\<close> a signal of
  confidence 0.85 raises \<^verbatim>\<open>OverflowError\<close> at the division of the win rate.
\<close>

theorem process_signal_exception_counterexample:
  "process_signal_io utf8_stdout demo_engine ''t1'' surrogate_signal = Inl UnicodeEncodeError \<and>
   process_signal_io utf8_stdout huge_engine ''t1'' (market_signal 2000000 1) = Inl OverflowError"
  by (simp add: process_signal_io_def surrogate_signal_def huge_engine_def utf8_stdout_def
      py_print_def py_int_truediv_def float_overflow_bound_def phoenix_defs)

text \<open>
  Claim C8, amended: \<open>process_signal\<close> never raises \<^verbatim>\<open>ZeroDivisionError\<close>, on any engine
  state, signal and output stream: the division of the win rate runs only when
  \<open>total_trades\<close> is positive. And it validates nothing: when the counters satisfy
  \<open>0 \<le> successful_trades \<le> total_trades\<close> and the output stream can encode the line to
  print, the call returns for every signal, whatever its strength, price and volume.
\<close>

theorem process_signal_io_no_exception:
  "process_signal_io stdout e now s \<noteq> Inl ZeroDivisionError \<and>
   (0 \<le> successful_trades (metrics e) \<and> successful_trades (metrics e) \<le> total_trades (metrics e) \<and>
    stdout (signal_line e s) \<longrightarrow>
      (\<exists>r e'. process_signal_io stdout e now s = Inr (r, e')))"
proof (cases "active e \<and> 0.7 < calculate_confidence e s")
  case False
  then have "process_signal_io stdout e now s = Inr (None, e)"
    by (auto simp: process_signal_io_def)
  then show ?thesis by simp
next
  case True
  have 1: "process_signal_io stdout e now s \<noteq> Inl ZeroDivisionError"
    using True
    by (auto simp: process_signal_io_def py_print_def py_int_truediv_def Let_def split: if_splits)
  have 2: "\<exists>r e'. process_signal_io stdout e now s = Inr (r, e')"
    if c: "0 \<le> successful_trades (metrics e)" "successful_trades (metrics e) \<le> total_trades (metrics e)"
      and p: "stdout (signal_line e s)"
  proof (cases "0.8 < calculate_confidence e s")
    case hi: True
    have "py_int_truediv (successful_trades (metrics e) + 1) (total_trades (metrics e) + 1)
            = Inr (real_of_int (successful_trades (metrics e) + 1) / real_of_int (total_trades (metrics e) + 1))"
      using c by (intro py_int_truediv_counters) simp_all
    with True hi c p show ?thesis
      by (simp add: process_signal_io_def py_print_def signal_line_def Let_def)
  next
    case lo: False
    have "py_int_truediv (successful_trades (metrics e)) (total_trades (metrics e) + 1)
            = Inr (real_of_int (successful_trades (metrics e)) / real_of_int (total_trades (metrics e) + 1))"
      using c by (intro py_int_truediv_counters) simp_all
    with True lo c p show ?thesis
      by (simp add: process_signal_io_def py_print_def signal_line_def Let_def)
  qed
  from 1 2 show ?thesis by blast
qed

text \<open>
  A call with a negative volume and a strength of \<open>-2\<close>: it is traded, and
  \<open>process_signal\<close> returns the same.
\<close>

lemma process_signal_io_out_of_range:
  "process_signal_io utf8_stdout demo_engine ''t1'' (market_signal (- 1000000) (- 2)) =
     Inr (Some \<lparr> ts_action = ''SELL'', ts_token = ''BONK'', ts_amount = - 150, ts_price = 0.01,
                  ts_confidence = 1, ts_timestamp = ''t1'' \<rparr>,
          demo_engine\<lparr>metrics := \<lparr> total_trades = 1, successful_trades = 1, total_pnl = - 3,
                                    win_rate = 1, avg_trade_duration = 0, current_positions = 0 \<rparr>\<rparr>)"
  by (simp add: process_signal_io_def utf8_stdout_def py_print_def py_int_truediv_def
      float_overflow_bound_def phoenix_defs)

theorem process_signal_io_no_exception_witness:
  "process_signal_io utf8_stdout demo_engine ''t1'' (market_signal (- 1000000) (- 2)) \<noteq> Inl ZeroDivisionError \<and>
   0 \<le> successful_trades (metrics demo_engine) \<and>
   successful_trades (metrics demo_engine) \<le> total_trades (metrics demo_engine) \<and>
   utf8_stdout (signal_line demo_engine (market_signal (- 1000000) (- 2))) \<and>
   (\<exists>r e'. process_signal_io utf8_stdout demo_engine ''t1'' (market_signal (- 1000000) (- 2)) = Inr (r, e') \<and>
            process_signal demo_engine ''t1'' (market_signal (- 1000000) (- 2)) = Inr (r, e') \<and>
            total_pnl (metrics e') = - 3)"
proof -
  have c: "0 \<le> successful_trades (metrics demo_engine)"
    "successful_trades (metrics demo_engine) \<le> total_trades (metrics demo_engine)"
    by (simp_all add: phoenix_defs)
  have p: "utf8_stdout (signal_line demo_engine (market_signal (- 1000000) (- 2)))"
    by (simp add: utf8_stdout_def signal_line_def market_signal_def)
  from c p process_signal_io_no_exception [of utf8_stdout demo_engine "''t1''" "market_signal (- 1000000) (- 2)"]
  obtain r e' where
    io: "process_signal_io utf8_stdout demo_engine ''t1'' (market_signal (- 1000000) (- 2)) = Inr (r, e')"
    and nz: "process_signal_io utf8_stdout demo_engine ''t1'' (market_signal (- 1000000) (- 2))
               \<noteq> Inl ZeroDivisionError"
    by blast
  from io have ps: "process_signal demo_engine ''t1'' (market_signal (- 1000000) (- 2)) = Inr (r, e')"
    by (rule process_signal_io_refines)
  from io have "total_pnl (metrics e') = - 3"
    unfolding process_signal_io_out_of_range by auto
  with c p io nz ps show ?thesis
    by blast
qed

section \<open>The scoring function\<close>

text \<open>
  Claim C4. With a risk tolerance in \<open>[0,1]\<close>, a signal strength in \<open>[0,1]\<close> and a volume
  that is not negative, \<open>calculate_confidence\<close> returns a value in \<open>[0,1]\<close>.
\<close>

theorem calculate_confidence_range:
  assumes "0 \<le> risk_tolerance (config e)" "risk_tolerance (config e) \<le> 1"
    and "0 \<le> signal_strength s" "signal_strength s \<le> 1"
    and "0 \<le> volume s"
  shows "0 \<le> calculate_confidence e s \<and> calculate_confidence e s \<le> 1"
proof -
  let ?vf = "py_min (volume s / 1000000.0) 1.0"
  have vf: "0 \<le> ?vf"
    using assms(5) by (intro py_min_nonneg) simp_all
  have "0 \<le> ?vf * signal_strength s * risk_tolerance (config e)"
    using vf assms(1,3) by simp
  then have "0 \<le> py_min (?vf * signal_strength s * risk_tolerance (config e)) 1.0"
    by (intro py_min_nonneg) simp_all
  moreover have "py_min (?vf * signal_strength s * risk_tolerance (config e)) 1.0 \<le> 1"
    using py_min_upper [of _ "1.0"] by simp
  ultimately show ?thesis
    by (simp add: calculate_confidence_def Let_def)
qed

theorem calculate_confidence_range_witness:
  "0 \<le> risk_tolerance (config demo_engine) \<and> risk_tolerance (config demo_engine) \<le> 1 \<and>
   0 \<le> signal_strength (market_signal 2000000 0.9) \<and>
   signal_strength (market_signal 2000000 0.9) \<le> 1 \<and>
   0 \<le> volume (market_signal 2000000 0.9) \<and>
   calculate_confidence demo_engine (market_signal 2000000 0.9) = 0.765 \<and>
   0 \<le> calculate_confidence demo_engine (market_signal 2000000 0.9) \<and>
   calculate_confidence demo_engine (market_signal 2000000 0.9) \<le> 1"
proof -
  have r: "0 \<le> risk_tolerance (config demo_engine)" "risk_tolerance (config demo_engine) \<le> 1"
    by (simp_all add: phoenix_defs)
  have s: "0 \<le> signal_strength (market_signal 2000000 0.9)"
    "signal_strength (market_signal 2000000 0.9) \<le> 1"
    "0 \<le> volume (market_signal 2000000 0.9)"
    by (simp_all add: market_signal_def)
  show ?thesis
    using r s calculate_confidence_range [OF r s] confidence_scenario_A by simp
qed

section \<open>The position sizer\<close>

text \<open>
  Claim C5, as stated: for every signal and confidence the amount is neither negative nor
  above \<open>max_position_size\<close>. It fails on the code, which validates nothing. On the demo
  engine (\<open>max_position_size = 100\<close>) a signal of strength 2 with confidence 1 is sized
  at \<open>-50\<close>; a confidence of 2 at strength 0.5 gives 200 and a confidence of \<open>-1\<close>
  gives \<open>-100\<close>; and an engine built from a
  capital of \<open>-1000\<close> sizes a signal of strength 0.5 and confidence 0.8 at \<open>-80\<close>,
  negative and above its \<open>max_position_size\<close> of \<open>-100\<close>.
\<close>

theorem calculate_position_size_counterexample:
  "calculate_position_size demo_engine (market_signal 1000000 2) 1 = - 50 \<and>
   calculate_position_size demo_engine (market_signal 1000000 0.5) 2 = 200 \<and>
   calculate_position_size demo_engine (market_signal 1000000 0.5) (- 1) = - 100 \<and>
   max_position_size (config demo_engine) = 100 \<and>
   calculate_position_size (PhoenixEngineDemo_init (- 1000)) (market_signal 1000000 0.5) 0.8 = - 80 \<and>
   max_position_size (config (PhoenixEngineDemo_init (- 1000))) = - 100"
  by (simp add: phoenix_defs)

text \<open>
  Claim C5, amended: when \<open>max_position_size\<close> is not negative, the confidence is in
  \<open>[0,1]\<close> and the signal strength is in \<open>[-0.5, 1.5]\<close> (so for every strength in the
  range \<open>[0,1]\<close> of the data model), the amount is between 0 and \<open>max_position_size\<close>.
\<close>

theorem calculate_position_size_range:
  assumes "0 \<le> max_position_size (config e)"
    and "0 \<le> c" "c \<le> 1"
    and "- 0.5 \<le> signal_strength s" "signal_strength s \<le> 1.5"
  shows "0 \<le> calculate_position_size e s c \<and>
         calculate_position_size e s c \<le> max_position_size (config e)"
proof -
  let ?b = "max_position_size (config e)"
  let ?v = "1.0 - \<bar>signal_strength s - 0.5\<bar>"
  have v: "0 \<le> ?v" "?v \<le> 1"
    using assms(4,5) by auto
  have cv: "0 \<le> c * ?v"
    using assms(2) v(1) by simp
  have "c * ?v \<le> 1 * 1"
    using assms(2,3) v by (intro mult_mono) auto
  then have cv1: "c * ?v \<le> 1"
    by simp
  have "?b * (c * ?v) \<le> ?b * 1"
    using assms(1) cv1 by (intro mult_left_mono) auto
  moreover have "0 \<le> ?b * (c * ?v)"
    using assms(1) cv by simp
  ultimately show ?thesis
    by (simp add: calculate_position_size_def Let_def mult.assoc)
qed

theorem calculate_position_size_range_witness:
  "0 \<le> max_position_size (config demo_engine) \<and>
   - 0.5 \<le> signal_strength (market_signal 2000000 0.9) \<and>
   signal_strength (market_signal 2000000 0.9) \<le> 1.5 \<and>
   calculate_position_size demo_engine (market_signal 2000000 0.9) 0.765 = 45.9 \<and>
   0 \<le> calculate_position_size demo_engine (market_signal 2000000 0.9) 0.765 \<and>
   calculate_position_size demo_engine (market_signal 2000000 0.9) 0.765
     \<le> max_position_size (config demo_engine)"
proof -
  have b: "0 \<le> max_position_size (config demo_engine)"
    by (simp add: phoenix_defs)
  have c: "(0::real) \<le> 0.765" "(0.765::real) \<le> 1"
    by simp_all
  have s: "- 0.5 \<le> signal_strength (market_signal 2000000 0.9)"
    "signal_strength (market_signal 2000000 0.9) \<le> 1.5"
    by (simp_all add: market_signal_def)
  have v: "calculate_position_size demo_engine (market_signal 2000000 0.9) 0.765 = 45.9"
    by (simp add: phoenix_defs)
  show ?thesis
    using b s v calculate_position_size_range [OF b c s] by simp
qed

section \<open>The direction of a trade\<close>



text \<open>
  With the risk tolerance the constructor fixes, a signal of strength exactly 0.5 has a
  confidence of at most 0.425 and is never traded: the boundary case of the claim needs a
  configuration the constructor does not build.
\<close>

lemma half_strength_never_trades:
  assumes "risk_tolerance (config e) = 0.85" and "signal_strength s = 0.5"
  shows "process_signal e now s = Inr (None, e)"
proof -
  define vf where "vf = py_min (volume s / 1000000.0) 1.0"
  have "vf \<le> 1"
    unfolding vf_def using py_min_upper [of "volume s / 1000000.0" "1.0"] by simp
  then have x: "vf * 0.5 * 0.85 \<le> 0.7"
    by simp
  have "calculate_confidence e s = py_min (vf * 0.5 * 0.85) 1.0"
    by (simp only: calculate_confidence_def Let_def vf_def assms)
  also have "\<dots> \<le> vf * 0.5 * 0.85"
    by (rule py_min_lower)
  finally have "calculate_confidence e s \<le> 0.7"
    using x by linarith
  then show ?thesis
    by (simp add: process_signal_def)
qed

section \<open>The fields of the returned signal\<close>

text \<open>
  Claim C10. Whenever \<open>process_signal\<close> returns a trading signal, its token and price
  are those of the market signal, its confidence is \<open>calculate_confidence\<close> of the
  signal, hence above 0.7, and its amount is \<open>calculate_position_size\<close> of the signal
  and that confidence.
\<close>

theorem process_signal_fields:
  assumes "process_signal e now s = Inr (Some t, e')"
  shows "ts_token t = token s \<and> ts_price t = price s \<and>
         ts_confidence t = calculate_confidence e s \<and> 0.7 < ts_confidence t \<and>
         ts_amount t = calculate_position_size e s (ts_confidence t)"
  using assms
  by (auto simp: process_signal_def Let_def py_truediv_def split: if_splits)

theorem process_signal_fields_witness:
  "process_signal demo_engine ''t1'' (market_signal 2000000 0.9) =
     Inr (Some \<lparr> ts_action = ''BUY'', ts_token = ''BONK'', ts_amount = 45.9, ts_price = 0.01,
                  ts_confidence = 0.765, ts_timestamp = ''t1'' \<rparr>,
          demo_engine\<lparr>metrics := \<lparr> total_trades = 1, successful_trades = 0, total_pnl = 0,
                                    win_rate = 0, avg_trade_duration = 0, current_positions = 0 \<rparr>\<rparr>) \<and>
   token (market_signal 2000000 0.9) = ''BONK'' \<and> price (market_signal 2000000 0.9) = 0.01 \<and>
   calculate_confidence demo_engine (market_signal 2000000 0.9) = 0.765 \<and>
   calculate_position_size demo_engine (market_signal 2000000 0.9) 0.765 = 45.9"
  using process_signal_fields [OF process_scenario_A] process_scenario_A
  by simp

section \<open>The profit and loss\<close>

lemma position_size_nonneg:
  assumes "0 \<le> max_position_size (config e)" and "0 \<le> c"
    and "- 0.5 \<le> signal_strength s" "signal_strength s \<le> 1.5"
  shows "0 \<le> calculate_position_size e s c"
proof -
  have "0 \<le> 1.0 - \<bar>signal_strength s - 0.5\<bar>"
    using assms(3,4) by auto
  then show ?thesis
    using assms(1,2) by (simp add: calculate_position_size_def Let_def)
qed

lemma process_signal_pnl:
  assumes "0 \<le> max_position_size (config e)"
    and "- 0.5 \<le> signal_strength s" "signal_strength s \<le> 1.5"
  shows "\<exists>r e'. process_signal e now s = Inr (r, e') \<and> config e' = config e \<and>
           total_pnl (metrics e) \<le> total_pnl (metrics e')"
proof (cases "active e \<and> 0.7 < calculate_confidence e s")
  case True
  then have "0 \<le> calculate_confidence e s"
    by simp
  then have "0 \<le> calculate_position_size e s (calculate_confidence e s)"
    using assms by (intro position_size_nonneg)
  with True show ?thesis
    by (auto simp: process_signal_def Let_def py_truediv_def)
next
  case False
  then have "process_signal e now s = Inr (None, e)"
    by (auto simp: process_signal_def)
  then show ?thesis by simp
qed

lemma step_pnl:
  assumes "0 \<le> max_position_size (config e)" and "strength_in_range c"
  shows "\<exists>e'. step e c = Inr e' \<and> config e' = config e \<and>
           total_pnl (metrics e) \<le> total_pnl (metrics e')"
proof (cases c)
  case (Process_signal now s)
  with assms process_signal_pnl [of e s now] show ?thesis
    by auto
qed (simp_all add: activate_def deactivate_def)

text \<open>
  Claim C6, as stated: no call of \<open>process_signal\<close> lowers \<open>total_pnl\<close>. It fails on
  the code. On the demo engine a signal of strength 2 has confidence 1 and is sized at
  \<open>-50\<close>, so \<open>total_pnl\<close> goes from 0 to \<open>-1\<close>; on an engine built from a capital of
  \<open>-1000\<close> a signal of strength 1 is sized at \<open>-42.5\<close> and \<open>total_pnl\<close> goes from 0
  to \<open>-0.85\<close>.
\<close>

theorem total_pnl_counterexample:
  "total_pnl (metrics demo_engine) = 0 \<and>
   process_signal demo_engine ''t1'' (market_signal 1000000 2) =
     Inr (Some \<lparr> ts_action = ''BUY'', ts_token = ''BONK'', ts_amount = - 50, ts_price = 0.01,
                  ts_confidence = 1, ts_timestamp = ''t1'' \<rparr>,
          demo_engine\<lparr>metrics := \<lparr> total_trades = 1, successful_trades = 1, total_pnl = - 1,
                                    win_rate = 1, avg_trade_duration = 0, current_positions = 0 \<rparr>\<rparr>) \<and>
   total_pnl (metrics (activate (PhoenixEngineDemo_init (- 1000)))) = 0 \<and>
   process_signal (activate (PhoenixEngineDemo_init (- 1000))) ''t1'' (market_signal 1000000 1) =
     Inr (Some \<lparr> ts_action = ''BUY'', ts_token = ''BONK'', ts_amount = - 42.5, ts_price = 0.01,
                  ts_confidence = 0.85, ts_timestamp = ''t1'' \<rparr>,
          (activate (PhoenixEngineDemo_init (- 1000)))
            \<lparr>metrics := \<lparr> total_trades = 1, successful_trades = 1, total_pnl = - 0.85,
                          win_rate = 1, avg_trade_duration = 0, current_positions = 0 \<rparr>\<rparr>)"
  by (simp add: phoenix_defs)

text \<open>
  Claim C6, amended: on an engine whose \<open>max_position_size\<close> is not negative, every
  sequence of calls whose signals have a strength in \<open>[-0.5, 1.5]\<close> (so every strength
  in the range \<open>[0,1]\<close> of the data model) runs to its end and leaves \<open>total_pnl\<close>
  at least where it was. A single call of \<open>process_signal\<close> is the
  sequence of length one, from any state of the engine.
\<close>

theorem total_pnl_never_decreases:
  assumes "0 \<le> max_position_size (config e)" and "\<forall>c \<in> set cs. strength_in_range c"
  shows "\<exists>e'. run e cs = Inr e' \<and> total_pnl (metrics e) \<le> total_pnl (metrics e')"
  using assms
proof (induction cs arbitrary: e)
  case Nil
  then show ?case by simp
next
  case (Cons c cs)
  from Cons.prems obtain e1 where e1: "step e c = Inr e1" "config e1 = config e"
    "total_pnl (metrics e) \<le> total_pnl (metrics e1)"
    using step_pnl [of e c] by auto
  from Cons.prems e1(2) have "0 \<le> max_position_size (config e1)" "\<forall>c \<in> set cs. strength_in_range c"
    by simp_all
  then obtain e' where "run e1 cs = Inr e'" "total_pnl (metrics e1) \<le> total_pnl (metrics e')"
    using Cons.IH by blast
  with e1 show ?case by auto
qed

theorem total_pnl_never_decreases_witness:
  "0 \<le> max_position_size (config (PhoenixEngineDemo_init 1000)) \<and>
   list_all strength_in_range scenario_D \<and>
   total_pnl (metrics (PhoenixEngineDemo_init 1000)) = 0 \<and>
   (\<exists>e'. run (PhoenixEngineDemo_init 1000) scenario_D = Inr e' \<and>
         total_pnl (metrics e') = 0.85 \<and>
         total_pnl (metrics (PhoenixEngineDemo_init 1000)) \<le> total_pnl (metrics e'))"
proof -
  have b: "0 \<le> max_position_size (config (PhoenixEngineDemo_init 1000))"
    by (simp add: PhoenixEngineDemo_init_def)
  have r: "\<forall>c \<in> set scenario_D. strength_in_range c"
    by (simp add: scenario_D_def market_signal_def)
  have z: "total_pnl (metrics (PhoenixEngineDemo_init 1000)) = 0"
    by (simp add: PhoenixEngineDemo_init_def)
  from total_pnl_never_decreases [OF b r] run_scenario_D z
  have "\<exists>e'. run (PhoenixEngineDemo_init 1000) scenario_D = Inr e' \<and>
         total_pnl (metrics e') = 0.85 \<and>
         total_pnl (metrics (PhoenixEngineDemo_init 1000)) \<le> total_pnl (metrics e')"
    by auto
  with b r z show ?thesis
    by (simp add: list_all_iff)
qed

section \<open>The invariant of the metrics\<close>

lemma metrics_consistent_win_rate:
  assumes "metrics_consistent m"
  shows "0 \<le> win_rate m \<and> win_rate m \<le> 1"
proof (cases "0 < total_trades m")
  case True
  with assms have "win_rate m = real_of_int (successful_trades m) / real_of_int (total_trades m)"
    and "0 \<le> successful_trades m" "successful_trades m \<le> total_trades m"
    by (simp_all add: metrics_consistent_def)
  with True show ?thesis by simp
next
  case False
  with assms show ?thesis by (simp add: metrics_consistent_def)
qed

lemma process_signal_consistent:
  assumes "metrics_consistent (metrics e)"
  shows "\<exists>r e'. process_signal e now s = Inr (r, e') \<and> metrics_consistent (metrics e')"
proof (cases "active e \<and> 0.7 < calculate_confidence e s")
  case True
  with assms show ?thesis
    by (auto simp: process_signal_def Let_def py_truediv_def metrics_consistent_def)
next
  case False
  then have "process_signal e now s = Inr (None, e)"
    by (auto simp: process_signal_def)
  with assms show ?thesis by simp
qed

lemma step_consistent:
  assumes "metrics_consistent (metrics e)"
  shows "\<exists>e'. step e c = Inr e' \<and> metrics_consistent (metrics e')"
proof (cases c)
  case (Process_signal now s)
  with assms process_signal_consistent [of e now s] show ?thesis
    by auto
qed (simp_all add: assms activate_def deactivate_def)

lemma run_consistent:
  assumes "metrics_consistent (metrics e)"
  shows "\<exists>e'. run e cs = Inr e' \<and> metrics_consistent (metrics e')"
  using assms
proof (induction cs arbitrary: e)
  case Nil
  then show ?case by simp
next
  case (Cons c cs)
  then obtain e1 where "step e c = Inr e1" "metrics_consistent (metrics e1)"
    using step_consistent [of e c] by blast
  with Cons.IH [of e1] show ?case by simp
qed

lemma init_consistent: "metrics_consistent (metrics (PhoenixEngineDemo_init cap))"
  by (simp add: metrics_consistent_def PhoenixEngineDemo_init_def)

text \<open>
  Claim C2. Every sequence of \<open>activate\<close>, \<open>deactivate\<close>, \<open>process_signal\<close> and
  \<open>get_metrics\<close> calls on a freshly constructed engine runs to its end, and then
  \<open>successful_trades \<le> total_trades\<close>, the win rate is in \<open>[0,1]\<close>, and it equals
  \<open>successful_trades / total_trades\<close> when \<open>total_trades\<close> is positive and 0 otherwise.
\<close>

theorem metrics_invariant:
  "\<exists>e. run (PhoenixEngineDemo_init cap) calls = Inr e \<and>
        successful_trades (metrics e) \<le> total_trades (metrics e) \<and>
        0 \<le> win_rate (metrics e) \<and> win_rate (metrics e) \<le> 1 \<and>
        win_rate (metrics e) =
          (if 0 < total_trades (metrics e)
           then real_of_int (successful_trades (metrics e)) / real_of_int (total_trades (metrics e))
           else 0)"
proof -
  obtain e where e: "run (PhoenixEngineDemo_init cap) calls = Inr e" "metrics_consistent (metrics e)"
    using run_consistent [OF init_consistent] by blast
  from e(2) have "0 \<le> win_rate (metrics e) \<and> win_rate (metrics e) \<le> 1"
    by (rule metrics_consistent_win_rate)
  with e show ?thesis
    by (auto simp: metrics_consistent_def)
qed

theorem metrics_invariant_witness:
  "\<exists>e. run (PhoenixEngineDemo_init 1000) scenario_D = Inr e \<and>
        total_trades (metrics e) = 3 \<and> successful_trades (metrics e) = 1 \<and>
        win_rate (metrics e) = 1 / 3 \<and>
        successful_trades (metrics e) \<le> total_trades (metrics e) \<and>
        0 \<le> win_rate (metrics e) \<and> win_rate (metrics e) \<le> 1"
  using metrics_invariant [of 1000 scenario_D] run_scenario_D
  by auto

section \<open>Construction\<close>

text \<open>
  Claim C9, as stated: the caller supplies capital, risk tolerance, maximal position size
  and trading mode, and the maximal position size need not be a tenth of the capital. It
  fails on the code: the constructor has the capital as its only parameter. Built from a
  capital of 1000 the configuration is \<open>(1000, 0.85, 100, DEMO)\<close>; a caller who wants
  \<open>(1000, 0.5, 50, LIVE)\<close> does not get it.
\<close>

theorem init_counterexample:
  "config (PhoenixEngineDemo_init 1000) =
     \<lparr> capital = 1000, risk_tolerance = 0.85, max_position_size = 100, trading_mode = ''DEMO'' \<rparr> \<and>
   config (PhoenixEngineDemo_init 1000) \<noteq>
     \<lparr> capital = 1000, risk_tolerance = 0.5, max_position_size = 50, trading_mode = ''LIVE'' \<rparr>"
  by (simp add: PhoenixEngineDemo_init_def)

text \<open>
  Claim C9, amended: construction takes the capital alone; the risk tolerance is 0.85, the
  trading mode is \<open>DEMO\<close>, and the maximal position size is always a tenth of the
  capital. The metrics start at zero and the engine starts inactive.
\<close>

theorem init_config:
  "config (PhoenixEngineDemo_init cap) =
     \<lparr> capital = cap, risk_tolerance = 0.85, max_position_size = cap * 0.1, trading_mode = ''DEMO'' \<rparr> \<and>
   max_position_size (config (PhoenixEngineDemo_init cap)) =
     capital (config (PhoenixEngineDemo_init cap)) / 10 \<and>
   metrics (PhoenixEngineDemo_init cap) =
     \<lparr> total_trades = 0, successful_trades = 0, total_pnl = 0, win_rate = 0,
       avg_trade_duration = 0, current_positions = 0 \<rparr> \<and>
   \<not> active (PhoenixEngineDemo_init cap)"
  by (simp add: PhoenixEngineDemo_init_def)

end
